theory Spec2Isabelle
  imports Main "HOL-Library.Sublist" "HOL-Library.Word"
begin

section \<open>The Starsector extension: game lookup, installer probe and installer\<close>

text \<open>
  A shallow embedding of \<^verbatim>\<open>game-starsector/index.js\<close>. JavaScript strings are
  lists of characters (each \<^typ>\<open>char\<close> stands for one code unit below 256). The
  collaborators the extension calls but does not own are parameters of the model: the
  registry lookup of \<^verbatim>\<open>winapi-bindings\<close>, the file read of the host, and the
  \<^verbatim>\<open>relaxed-json\<close> parser. The functions of Node's \<^verbatim>\<open>path\<close> module are
  modelled in their POSIX form, where the separator is the slash.
\<close>

subsection \<open>Values, errors, effects\<close>

text \<open>
  The values a JSON parser can hand back, and \<^verbatim>\<open>undefined\<close>. A number is kept as
  the bit pattern of its double; the extension never computes with one. An object is the
  list of its own properties, looked up with \<^const>\<open>map_of\<close>.
\<close>

datatype jsval =
    Undefined
  | Null
  | JBool bool
  | JNum "64 word"
  | JStr string
  | JArr "jsval list"
  | JObj "(string \<times> jsval) list"

text \<open>
  What a promise can be rejected with: a plain \<^verbatim>\<open>Error\<close> with its message, a
  \<^verbatim>\<open>TypeError\<close> raised by the runtime (its message depends on the engine and is left
  out), and the host's \<^verbatim>\<open>util.DataInvalid\<close> with its message.
\<close>

datatype error = Error string | TypeError | DataInvalid string

datatype instruction =
    Attribute string jsval   \<comment> \<open>\<^verbatim>\<open>{type: 'attribute', key, value}\<close>\<close>
  | Copy string string       \<comment> \<open>\<^verbatim>\<open>{type: 'copy', source, destination}\<close>\<close>

record install_result =
  instructions :: "instruction list"

text \<open>The effects of one call, in the order they happen: file reads and log entries
  (level, message, metadata).\<close>

datatype effect =
    ReadFile string
  | Log string string "(string \<times> string) list"

abbreviation dquote :: char where "dquote \<equiv> CHR 0x22"
abbreviation squote :: char where "squote \<equiv> CHR 0x27"
abbreviation backslash :: char where "backslash \<equiv> CHR 0x5C"
abbreviation hash :: char where "hash \<equiv> CHR 0x23"

definition GAME_ID :: string where
  "GAME_ID = ''starsector''"

definition MOD_INFO_FILE :: string where
  "MOD_INFO_FILE = ''mod_info.json''"

subsection \<open>Strings\<close>

text \<open>\<^verbatim>\<open>String.prototype.trim\<close>: white space and line terminators are removed from
  both ends. Below 256 these are TAB, LF, VT, FF, CR, SP and NBSP.\<close>

definition isWhiteSpace :: "char \<Rightarrow> bool" where
  "isWhiteSpace c = (c \<in> set [CHR 0x09, CHR 0x0A, CHR 0x0B, CHR 0x0C, CHR 0x0D, CHR 0x20, CHR 0xA0])"

definition trim :: "string \<Rightarrow> string" where
  "trim s = rev (dropWhile isWhiteSpace (rev (dropWhile isWhiteSpace s)))"

text \<open>\<^verbatim>\<open>s.indexOf(pat)\<close>: the first index at which \<open>pat\<close> occurs, or \<open>-1\<close>.\<close>

fun indexOfFrom :: "string \<Rightarrow> string \<Rightarrow> int \<Rightarrow> int" where
  "indexOfFrom pat [] i = (if pat = [] then i else - 1)"
| "indexOfFrom pat (x # xs) i = (if prefix pat (x # xs) then i else indexOfFrom pat xs (i + 1))"

definition indexOf :: "string \<Rightarrow> string \<Rightarrow> int" where
  "indexOf s pat = indexOfFrom pat s 0"

subsection \<open>Node's path module (POSIX)\<close>

definition sep :: char where
  "sep = CHR ''/''"

text \<open>\<^verbatim>\<open>path.basename(p)\<close>: trailing separators are ignored, the last segment is
  returned.\<close>

definition basename :: "string \<Rightarrow> string" where
  "basename p = rev (takeWhile (\<lambda>c. c \<noteq> sep) (dropWhile (\<lambda>c. c = sep) (rev p)))"

text \<open>
  \<^verbatim>\<open>path.dirname(p)\<close>. Node scans the indices from the last one down to 1, skips the
  trailing separators and the last segment, and cuts at the separator it then meets; the
  reversed tail of \<open>p\<close> is that scan.
\<close>

definition dirname :: "string \<Rightarrow> string" where
  "dirname p =
     (if p = [] then ''.''
      else
        let hasRoot = (hd p = sep);
            scan = dropWhile (\<lambda>c. c \<noteq> sep) (dropWhile (\<lambda>c. c = sep) (rev (tl p)));
            end = length scan
        in if scan = [] then (if hasRoot then ''/'' else ''.'')
           else if hasRoot \<and> end = 1 then ''//''
           else take end p)"

fun splitOn :: "char \<Rightarrow> string \<Rightarrow> string list" where
  "splitOn d [] = [[]]"
| "splitOn d (x # xs) =
     (if x = d then [] # splitOn d xs
      else (case splitOn d xs of [] \<Rightarrow> [[x]] | y # ys \<Rightarrow> (x # y) # ys))"

fun joinWith :: "char \<Rightarrow> string list \<Rightarrow> string" where
  "joinWith d [] = []"
| "joinWith d [x] = x"
| "joinWith d (x # y # ys) = x @ d # joinWith d (y # ys)"

text \<open>
  \<^verbatim>\<open>normalizeString\<close>: the segments are pushed on a stack (kept reversed here);
  empty segments and \<^verbatim>\<open>.\<close> are dropped, \<^verbatim>\<open>..\<close> pops a segment that is not
  itself \<^verbatim>\<open>..\<close>, and is kept only above the root of a relative path.
\<close>

fun normalizeSegments :: "bool \<Rightarrow> string list \<Rightarrow> string list \<Rightarrow> string list" where
  "normalizeSegments allowAboveRoot res [] = rev res"
| "normalizeSegments allowAboveRoot res (seg # segs) =
     (if seg = [] \<or> seg = ''.'' then normalizeSegments allowAboveRoot res segs
      else if seg = ''..'' then
        (case res of
           r # rs \<Rightarrow>
             if r \<noteq> ''..'' then normalizeSegments allowAboveRoot rs segs
             else if allowAboveRoot then normalizeSegments allowAboveRoot (seg # res) segs
             else normalizeSegments allowAboveRoot res segs
         | [] \<Rightarrow>
             if allowAboveRoot then normalizeSegments allowAboveRoot (seg # res) segs
             else normalizeSegments allowAboveRoot res segs)
      else normalizeSegments allowAboveRoot (seg # res) segs)"

definition normalize :: "string \<Rightarrow> string" where
  "normalize p =
     (if p = [] then ''.''
      else
        let isAbsolute = (hd p = sep);
            trailingSeparator = (last p = sep);
            q = joinWith sep (normalizeSegments (\<not> isAbsolute) [] (splitOn sep p))
        in if q = [] then (if isAbsolute then ''/'' else if trailingSeparator then ''./'' else ''.'')
           else (if isAbsolute then [sep] else []) @ q @ (if trailingSeparator then [sep] else []))"

text \<open>\<^verbatim>\<open>path.join(...args)\<close> on strings: the non-empty arguments are joined with the
  separator and the result is normalised.\<close>

definition join :: "string list \<Rightarrow> string" where
  "join args =
     (let parts = filter (\<lambda>a. a \<noteq> []) args
      in if parts = [] then ''.'' else normalize (joinWith sep parts))"

subsection \<open>Regular expressions\<close>

text \<open>
  The constructs of JavaScript regular expressions that \<^verbatim>\<open>COMMENT_STRIPPING_REGEX\<close>
  uses. \<open>Dot\<close> is \<^verbatim>\<open>.\<close> without the \<^verbatim>\<open>s\<close> flag, \<open>AnyChar\<close> is
  \<^verbatim>\<open>[\s\S]\<close>, \<open>LazyStar\<close> is \<^verbatim>\<open>*?\<close>, \<open>Eol\<close> is \<^verbatim>\<open>$\<close> under the
  \<^verbatim>\<open>m\<close> flag, \<open>NegLookahead\<close> is \<^verbatim>\<open>(?!...)\<close>.
\<close>

datatype regex =
    Chr char
  | Dot
  | AnyChar
  | OneOf "char list"
  | Seq regex regex
  | Alt regex regex
  | LazyStar regex
  | Group nat regex
  | BackRef nat
  | NegLookahead regex
  | Eol

type_synonym captures = "nat \<Rightarrow> string option"
type_synonym mstate = "string \<times> captures"

definition isLineTerminator :: "char \<Rightarrow> bool" where
  "isLineTerminator c = (c = CHR 0x0A \<or> c = CHR 0x0D)"

text \<open>
  The backtracking matcher. A state is the input that is left and the captures so far;
  \<open>matches r st\<close> lists every way \<open>r\<close> can match at \<open>st\<close>, in the order in which
  backtracking tries them, so the head of the list is the match JavaScript reports. A
  lazy star tries to stop before it tries another round, and a round that consumes
  nothing is rejected.
\<close>

function matches :: "regex \<Rightarrow> mstate \<Rightarrow> mstate list" where
  "matches (Chr a) (s, c) =
     (case s of [] \<Rightarrow> [] | x # xs \<Rightarrow> if x = a then [(xs, c)] else [])"
| "matches Dot (s, c) =
     (case s of [] \<Rightarrow> [] | x # xs \<Rightarrow> if isLineTerminator x then [] else [(xs, c)])"
| "matches AnyChar (s, c) =
     (case s of [] \<Rightarrow> [] | x # xs \<Rightarrow> [(xs, c)])"
| "matches (OneOf as) (s, c) =
     (case s of [] \<Rightarrow> [] | x # xs \<Rightarrow> if x \<in> set as then [(xs, c)] else [])"
| "matches (Seq r1 r2) (s, c) =
     concat (map (\<lambda>y. matches r2 y) (matches r1 (s, c)))"
| "matches (Alt r1 r2) (s, c) = matches r1 (s, c) @ matches r2 (s, c)"
| "matches (LazyStar r) (s, c) =
     (s, c) # concat (map (\<lambda>y. matches (LazyStar r) y)
                      (filter (\<lambda>y. length (fst y) < length s) (matches r (s, c))))"
| "matches (Group n r) (s, c) =
     map (\<lambda>(s', c'). (s', c'(n \<mapsto> take (length s - length s') s))) (matches r (s, c))"
| "matches (BackRef n) (s, c) =
     (case c n of
        None \<Rightarrow> [(s, c)]
      | Some t \<Rightarrow> if prefix t s then [(drop (length t) s, c)] else [])"
| "matches (NegLookahead r) (s, c) = (if matches r (s, c) = [] then [(s, c)] else [])"
| "matches Eol (s, c) =
     (case s of [] \<Rightarrow> [(s, c)] | x # xs \<Rightarrow> if isLineTerminator x then [(s, c)] else [])"
  by pat_completeness auto
termination
  by (relation "inv_image (less_than <*lex*> less_than) (\<lambda>(r, (s, c)). (size r, length s))")
    auto

text \<open>One attempt at the current position: the first match, if any.\<close>

definition firstMatch :: "'a list \<Rightarrow> 'a option" where
  "firstMatch ms = (case ms of [] \<Rightarrow> None | m # _ \<Rightarrow> Some m)"

definition regexExec :: "regex \<Rightarrow> string \<Rightarrow> mstate option" where
  "regexExec r s = firstMatch (matches r (s, Map.empty))"

text \<open>The replacement pattern \<^verbatim>\<open>"$1"\<close>: the text of group 1, empty when the group
  took no part in the match.\<close>

definition group1 :: "captures \<Rightarrow> string" where
  "group1 c = (case c 1 of None \<Rightarrow> [] | Some t \<Rightarrow> t)"

text \<open>
  \<^verbatim>\<open>s.replace(r, "$1")\<close> for a global \<open>r\<close> without look-behind: at each position the
  expression is tried; a match is replaced and the scan resumes behind it (one character
  further when the match was empty); without a match the character is copied.
\<close>

function replaceAll1 :: "regex \<Rightarrow> string \<Rightarrow> string" where
  "replaceAll1 r s =
     (case regexExec r s of
        None \<Rightarrow> (case s of [] \<Rightarrow> [] | x # xs \<Rightarrow> x # replaceAll1 r xs)
      | Some (s', c) \<Rightarrow>
          group1 c @
          (if length s' < length s then replaceAll1 r s'
           else (case s of [] \<Rightarrow> [] | x # xs \<Rightarrow> x # replaceAll1 r xs)))"
  by pat_completeness auto
termination
  by (relation "measure (\<lambda>(r, s). length s)") auto

subsection \<open>The comment-stripping expression\<close>

text \<open>
  \<^verbatim>\<open>/((["'])(?:\\[\s\S]|.)*?\2|\#(?![*\#])(?:\\.|\[(?:\\.|.)\]|.)*?\#)|\#.*?$|\#\*[\s\S]*?\*\#/gm\<close>,
  one definition for each of its four alternatives, and one for each of the two groups
  \<^verbatim>\<open>(?:\\[\s\S]|.)\<close> and \<^verbatim>\<open>(?:\\.|\[(?:\\.|.)\]|.)\<close> that are repeated.
\<close>

definition quotedBody :: regex where
  "quotedBody = Alt (Seq (Chr backslash) AnyChar) Dot"

definition quotedAlt :: regex where
  "quotedAlt =
     Seq (Group 2 (OneOf [dquote, squote])) (Seq (LazyStar quotedBody) (BackRef 2))"

definition spanBody :: regex where
  "spanBody =
     Alt (Seq (Chr backslash) Dot)
       (Alt (Seq (Chr CHR ''['') (Seq (Alt (Seq (Chr backslash) Dot) Dot) (Chr CHR '']''))) Dot)"

definition hashSpanAlt :: regex where
  "hashSpanAlt =
     Seq (Chr hash) (Seq (NegLookahead (OneOf [CHR ''*'', hash]))
       (Seq (LazyStar spanBody) (Chr hash)))"

definition lineCommentAlt :: regex where
  "lineCommentAlt = Seq (Chr hash) (Seq (LazyStar Dot) Eol)"

definition blockCommentAlt :: regex where
  "blockCommentAlt =
     Seq (Chr hash) (Seq (Chr CHR ''*'')
       (Seq (LazyStar AnyChar) (Seq (Chr CHR ''*'') (Chr hash))))"

definition COMMENT_STRIPPING_REGEX :: regex where
  "COMMENT_STRIPPING_REGEX =
     Alt (Group 1 (Alt quotedAlt hashSpanAlt)) (Alt lineCommentAlt blockCommentAlt)"

definition stripComments :: "string \<Rightarrow> string" where
  "stripComments data = replaceAll1 COMMENT_STRIPPING_REGEX data"

subsection \<open>findGame\<close>

text \<open>What \<^verbatim>\<open>winapi.RegGetValue\<close> returns for a value that exists.\<close>

record reg_entry =
  regType :: string
  regValue :: string

text \<open>
  The registry is a parameter: for a hive, a key and a value name the lookup throws
  (\<open>Inl\<close>), returns nothing (\<open>Inr None\<close>) or returns an entry.
\<close>

type_synonym registry = "string \<Rightarrow> string \<Rightarrow> string \<Rightarrow> error + reg_entry option"

definition STARSECTOR_KEY :: string where
  "STARSECTOR_KEY = ''Software'' @ [backslash] @ ''Fractal Softworks'' @ [backslash] @ ''Starsector''"

definition findGame :: "registry \<Rightarrow> error + string" where
  "findGame RegGetValue =
     (case RegGetValue ''HKEY_CURRENT_USER'' STARSECTOR_KEY [] of
        Inl err \<Rightarrow> Inl err
      | Inr None \<Rightarrow> Inl (Error ''Starsector registry key not found!'')
      | Inr (Some instPath) \<Rightarrow> Inr (regValue instPath))"

subsection \<open>testSupportedContent\<close>

text \<open>The probe's answer. A property that the object does not have reads as
  \<^verbatim>\<open>undefined\<close>, here \<open>None\<close>; so does an array element that is \<^verbatim>\<open>undefined\<close>.\<close>

record supported_result =
  supported :: bool
  requiredFiles :: "string option list option"

definition testSupportedContent :: "string list \<Rightarrow> string \<Rightarrow> supported_result" where
  "testSupportedContent files gameId =
     (if gameId \<noteq> GAME_ID then \<lparr>supported = False, requiredFiles = None\<rparr>
      else
        let contentPath = find (\<lambda>file. basename file = MOD_INFO_FILE) files
        in \<lparr>supported = (contentPath \<noteq> None), requiredFiles = Some [contentPath]\<rparr>)"

subsection \<open>installContent\<close>

text \<open>
  \<^verbatim>\<open>getAttr\<close>: the property \<open>key\<close> of the parsed manifest. Reading a property of
  \<^verbatim>\<open>null\<close> or \<^verbatim>\<open>undefined\<close> throws, which is what the handler catches; on any other
  value a property that is not there reads as \<^verbatim>\<open>undefined\<close>. (None of the four keys
  the installer asks for is inherited by a string, a number, a boolean or an array.)
\<close>

definition getAttr :: "jsval \<Rightarrow> string \<Rightarrow> jsval \<times> effect list" where
  "getAttr parsed key =
     (case parsed of
        Undefined \<Rightarrow>
          (JStr [], [Log ''info'' (''attribute missing in '' @ MOD_INFO_FILE) [(''key'', key)]])
      | Null \<Rightarrow>
          (JStr [], [Log ''info'' (''attribute missing in '' @ MOD_INFO_FILE) [(''key'', key)]])
      | JObj props \<Rightarrow> ((case map_of props key of None \<Rightarrow> Undefined | Some v \<Rightarrow> v), [])
      | _ \<Rightarrow> (Undefined, []))"

text \<open>\<^verbatim>\<open>v.trim()\<close>: only a string has the method; on every other value the call is a
  \<^verbatim>\<open>TypeError\<close>.\<close>

definition trimValue :: "jsval \<Rightarrow> error + string" where
  "trimValue v = (case v of JStr s \<Rightarrow> Inr (trim s) | _ \<Rightarrow> Inl TypeError)"

text \<open>The variable \<^verbatim>\<open>outputPath\<close> holds a string, or the rejected promise that the
  root branch assigns to it.\<close>

datatype outval = PathStr string | RejectedPromise error

type_synonym parser = "string \<Rightarrow> string + jsval"

text \<open>
  The first \<^verbatim>\<open>then\<close> callback: from the manifest's text to the attribute
  instructions. It returns the outcome, the value \<^verbatim>\<open>outputPath\<close> has when it ends,
  and its log entries. The parser is a parameter; \<open>Inl msg\<close> is a thrown error with
  message \<open>msg\<close>.
\<close>

definition attrStage ::
  "parser \<Rightarrow> string \<Rightarrow> string \<Rightarrow> string \<Rightarrow> (error + instruction list) \<times> outval \<times> effect list" where
  "attrStage parse contentPath basePath data =
     (case parse (stripComments data) of
        Inl msg \<Rightarrow>
          (Inr [], PathStr basePath, [Log ''warn'' (MOD_INFO_FILE @ '' invalid: '' @ msg) []])
      | Inr parsed \<Rightarrow>
          (case getAttr parsed ''id'' of (contentModId, log1) \<Rightarrow>
             if contentModId = Undefined
             then (Inl (DataInvalid (''invalid or unsupported '' @ MOD_INFO_FILE)),
                   PathStr basePath, log1)
             else
               let outputPath =
                     (if indexOf contentPath MOD_INFO_FILE > 0
                      then PathStr (basename (dirname contentPath))
                      else RejectedPromise
                             (DataInvalid (''invalid or unsupported '' @ MOD_INFO_FILE)))
               in (case getAttr parsed ''name'' of (name, log2) \<Rightarrow>
                     (case trimValue name of
                        Inl e \<Rightarrow> (Inl e, outputPath, log1 @ log2)
                      | Inr customFileName \<Rightarrow>
                          (case getAttr parsed ''version'' of (version, log3) \<Rightarrow>
                             (case trimValue version of
                                Inl e \<Rightarrow> (Inl e, outputPath, log1 @ log2 @ log3)
                              | Inr version' \<Rightarrow>
                                  (case getAttr parsed ''author'' of (author, log4) \<Rightarrow>
                                     (Inr [Attribute ''customFileName'' (JStr customFileName),
                                           Attribute ''version'' (JStr version'),
                                           Attribute ''author'' author],
                                      outputPath, log1 @ log2 @ log3 @ log4))))))))"

text \<open>The files the second callback keeps: under \<^verbatim>\<open>basePath\<close>, and not a directory
  entry.\<close>

definition copyFilter :: "string \<Rightarrow> string \<Rightarrow> bool" where
  "copyFilter basePath file = (prefix (basePath @ [sep]) file \<and> \<not> suffix [sep] file)"

text \<open>
  The second \<^verbatim>\<open>then\<close> callback. \<^verbatim>\<open>path.join\<close> is called once for each file
  kept, and throws a \<^verbatim>\<open>TypeError\<close> when \<^verbatim>\<open>outputPath\<close> is not a string.
\<close>

definition copyStage ::
  "string list \<Rightarrow> string \<Rightarrow> outval \<Rightarrow> instruction list \<Rightarrow> error + install_result" where
  "copyStage files basePath outputPath attrInstructions =
     (let kept = filter (copyFilter basePath) files
      in case outputPath of
           PathStr out \<Rightarrow>
             Inr \<lparr>instructions = attrInstructions @
                    map (\<lambda>file. Copy file (join [out, drop (length basePath + 1) file])) kept\<rparr>
         | RejectedPromise e \<Rightarrow>
             if kept = [] then Inr \<lparr>instructions = attrInstructions\<rparr> else Inl TypeError)"

text \<open>
  \<^verbatim>\<open>installContent(files, destinationPath, gameId, progressDelegate)\<close>; the last
  argument is never used and is left out. \<^verbatim>\<open>path.dirname\<close> throws a
  \<^verbatim>\<open>TypeError\<close> on \<^verbatim>\<open>undefined\<close>. The file read is a parameter; \<open>Inl e\<close> rejects
  the promise with \<open>e\<close>.
\<close>

definition installContent ::
  "(string \<Rightarrow> error + string) \<Rightarrow> parser \<Rightarrow> string list \<Rightarrow> string \<Rightarrow> string
     \<Rightarrow> (error + install_result) \<times> effect list" where
  "installContent readFileAsync parse files destinationPath gameId =
     (case find (\<lambda>file. basename file = MOD_INFO_FILE) files of
        None \<Rightarrow> (Inl TypeError, [])
      | Some contentPath \<Rightarrow>
          let basePath = dirname contentPath;
              contentFile = join [destinationPath, contentPath]
          in (case readFileAsync contentFile of
                Inl e \<Rightarrow> (Inl e, [ReadFile contentFile])
              | Inr data \<Rightarrow>
                  (case attrStage parse contentPath basePath data of
                     (Inl e, outputPath, logs) \<Rightarrow> (Inl e, ReadFile contentFile # logs)
                   | (Inr attrInstructions, outputPath, logs) \<Rightarrow>
                       (copyStage files basePath outputPath attrInstructions,
                        ReadFile contentFile # logs))))"

subsection \<open>A sample package\<close>

text \<open>
  The inputs of the closed theorems below: the manifest of the specification's round-trip
  example, the same manifest without its name and without its id, a parser that knows
  these texts and the text \<^verbatim>\<open>null\<close> and rejects every other one, and a disk that
  holds one file.
\<close>

abbreviation quoted :: "string \<Rightarrow> string" where
  "quoted s \<equiv> dquote # s @ [dquote]"

definition sampleManifest :: string where
  "sampleManifest =
     ''{'' @ quoted ''id'' @ '':'' @ quoted ''mod1'' @ '','' @ quoted ''name'' @ '':'' @ quoted ''My Mod'' @
     '','' @ quoted ''version'' @ '':'' @ quoted ''1.0'' @ '','' @ quoted ''author'' @ '':'' @
     quoted ''Alice'' @ ''}''"

definition sampleObject :: jsval where
  "sampleObject = JObj [(''id'', JStr ''mod1''), (''name'', JStr ''My Mod''),
                        (''version'', JStr ''1.0''), (''author'', JStr ''Alice'')]"

definition namelessManifest :: string where
  "namelessManifest =
     ''{'' @ quoted ''id'' @ '':'' @ quoted ''mod1'' @ '','' @ quoted ''version'' @ '':'' @ quoted ''1.0'' @
     '','' @ quoted ''author'' @ '':'' @ quoted ''Alice'' @ ''}''"

definition namelessObject :: jsval where
  "namelessObject =
     JObj [(''id'', JStr ''mod1''), (''version'', JStr ''1.0''), (''author'', JStr ''Alice'')]"

definition anonymousManifest :: string where
  "anonymousManifest = ''{'' @ quoted ''name'' @ '':'' @ quoted ''My Mod'' @ ''}''"

definition anonymousObject :: jsval where
  "anonymousObject = JObj [(''name'', JStr ''My Mod'')]"

definition sampleParse :: parser where
  "sampleParse text =
     (case map_of [(sampleManifest, sampleObject), (namelessManifest, namelessObject),
                   (anonymousManifest, anonymousObject), (''null'', Null)] text of
        None \<Rightarrow> Inl ''syntax error''
      | Some v \<Rightarrow> Inr v)"

definition sampleRead :: "string \<Rightarrow> string \<Rightarrow> string \<Rightarrow> error + string" where
  "sampleRead name data file = (if file = name then Inr data else Inl (Error ''ENOENT''))"

definition sampleRegistry :: "string \<Rightarrow> registry" where
  "sampleRegistry dir hive key name =
     (if hive = ''HKEY_CURRENT_USER'' \<and> key = STARSECTOR_KEY \<and> name = []
      then Inr (Some \<lparr>regType = ''REG_SZ'', regValue = dir\<rparr>)
      else Inl (Error ''ENOENT''))"

subsection \<open>Notions used in the proofs about comment stripping\<close>









text \<open>
  \<open>literalBody q t\<close>: the text \<open>t\<close> is the content of a string literal in quotes
  \<open>q\<close>. A backslash stands for itself and the character behind it, whatever that is;
  every other character is neither \<open>q\<close> nor a line terminator.
\<close>

fun literalBody :: "char \<Rightarrow> string \<Rightarrow> bool" where
  "literalBody q [] = True"
| "literalBody q [x] = (x \<noteq> q \<and> x \<noteq> backslash \<and> \<not> isLineTerminator x)"
| "literalBody q (x # y # ys) =
     (if x = backslash then literalBody q ys
      else x \<noteq> q \<and> \<not> isLineTerminator x \<and> literalBody q (y # ys))"


section \<open>Properties\<close>

subsection \<open>Evaluating the sample package\<close>

lemmas path_defs = basename_def dirname_def join_def normalize_def sep_def MOD_INFO_FILE_def

lemmas regex_defs = stripComments_def COMMENT_STRIPPING_REGEX_def quotedAlt_def quotedBody_def
  hashSpanAlt_def spanBody_def lineCommentAlt_def blockCommentAlt_def regexExec_def firstMatch_def
  group1_def isLineTerminator_def

lemmas sample_defs = sampleManifest_def namelessManifest_def anonymousManifest_def

lemma strip_sample: "stripComments sampleManifest = sampleManifest"
  by (simp add: sampleManifest_def regex_defs)

lemma strip_nameless: "stripComments namelessManifest = namelessManifest"
  by (simp add: namelessManifest_def regex_defs)

lemma strip_anonymous: "stripComments anonymousManifest = anonymousManifest"
  by (simp add: anonymousManifest_def regex_defs)

lemma strip_brace: "stripComments ''{'' = ''{''"
  by (simp add: regex_defs)

lemma parse_sample:
  "sampleParse (stripComments sampleManifest) =
     Inr (JObj [(''id'', JStr ''mod1''), (''name'', JStr ''My Mod''),
                (''version'', JStr ''1.0''), (''author'', JStr ''Alice'')])"
  by (simp add: strip_sample sampleParse_def sampleObject_def)

lemma parse_nameless:
  "sampleParse (stripComments namelessManifest) =
     Inr (JObj [(''id'', JStr ''mod1''), (''version'', JStr ''1.0''), (''author'', JStr ''Alice'')])"
  unfolding strip_nameless sampleParse_def by (simp add: sample_defs namelessObject_def)

lemma parse_anonymous:
  "sampleParse (stripComments anonymousManifest) = Inr (JObj [(''name'', JStr ''My Mod'')])"
  unfolding strip_anonymous sampleParse_def by (simp add: sample_defs anonymousObject_def)

lemma parse_brace: "sampleParse (stripComments ''{'') = Inl ''syntax error''"
  unfolding strip_brace sampleParse_def by (simp add: sample_defs)

lemma strip_null: "stripComments ''null'' = ''null''"
  by (simp add: regex_defs)

lemma parse_null: "sampleParse (stripComments ''null'') = Inr Null"
  unfolding strip_null sampleParse_def by (simp add: sample_defs)

lemma find_mod1:
  "find (\<lambda>file. basename file = MOD_INFO_FILE) [''mod1/mod_info.json'', ''mod1/data/foo.txt'']
     = Some ''mod1/mod_info.json''"
  by (simp add: basename_def sep_def MOD_INFO_FILE_def)

lemma dirname_mod1: "dirname ''mod1/mod_info.json'' = ''mod1''"
  by (simp add: dirname_def sep_def)

lemma join_staging: "join [''/staging'', ''mod1/mod_info.json''] = ''/staging/mod1/mod_info.json''"
  by (simp add: path_defs)

lemma read_mod1:
  "sampleRead ''/staging/mod1/mod_info.json'' data (join [''/staging'', ''mod1/mod_info.json''])
     = Inr data"
  by (simp add: join_staging sampleRead_def)

lemma find_root:
  "find (\<lambda>file. basename file = MOD_INFO_FILE) (''mod_info.json'' # files) = Some ''mod_info.json''"
  by (simp add: basename_def sep_def MOD_INFO_FILE_def)

lemma index_root: "indexOf ''mod_info.json'' MOD_INFO_FILE = 0"
  by (simp add: indexOf_def MOD_INFO_FILE_def)

lemma dirname_root: "dirname ''mod_info.json'' = ''.''"
  by (simp add: dirname_def sep_def)

lemma join_root: "join [''/staging'', ''mod_info.json''] = ''/staging/mod_info.json''"
  by (simp add: path_defs)

lemma read_root:
  "sampleRead ''/staging/mod_info.json'' data (join [''/staging'', ''mod_info.json'']) = Inr data"
  by (simp add: join_root sampleRead_def)

subsection \<open>The two stages of the installer\<close>

lemma find_filter_conv:
  "find P xs = (case filter P xs of [] \<Rightarrow> None | x # _ \<Rightarrow> Some x)"
  by (induction xs) auto

lemma copyFilter_fun:
  "copyFilter basePath = (\<lambda>file. prefix (basePath @ [sep]) file \<and> \<not> suffix [sep] file)"
  by (rule ext) (simp add: copyFilter_def)

lemma install_after_read:
  assumes "find (\<lambda>file. basename file = MOD_INFO_FILE) files = Some contentPath"
    and "readFileAsync (join [destinationPath, contentPath]) = Inr data"
  shows "installContent readFileAsync parse files destinationPath gameId =
     (case attrStage parse contentPath (dirname contentPath) data of
        (Inl e, outputPath, logs) \<Rightarrow> (Inl e, ReadFile (join [destinationPath, contentPath]) # logs)
      | (Inr attrInstructions, outputPath, logs) \<Rightarrow>
          (copyStage files (dirname contentPath) outputPath attrInstructions,
           ReadFile (join [destinationPath, contentPath]) # logs))"
  using assms by (simp add: installContent_def Let_def)

lemma attrStage_parse_failure:
  "parse (stripComments data) = Inl msg \<Longrightarrow>
   attrStage parse contentPath basePath data =
     (Inr [], PathStr basePath, [Log ''warn'' (MOD_INFO_FILE @ '' invalid: '' @ msg) []])"
  by (simp add: attrStage_def)

lemma attrStage_no_id:
  "parse (stripComments data) = Inr (JObj props) \<Longrightarrow> map_of props ''id'' = None \<Longrightarrow>
   attrStage parse contentPath basePath data =
     (Inl (DataInvalid (''invalid or unsupported '' @ MOD_INFO_FILE)), PathStr basePath, [])"
  by (simp add: attrStage_def getAttr_def)

lemma attrStage_attributes:
  "attrStage parse contentPath basePath data = (Inr attrs, outputPath, logs) \<Longrightarrow>
   a \<in> set attrs \<Longrightarrow> \<exists>k v. a = Attribute k v"
  by (auto simp: attrStage_def Let_def split: sum.splits prod.splits if_splits)

lemma attrStage_outputPath:
  "attrStage parse contentPath basePath data = (Inr attrs, outputPath, logs) \<Longrightarrow>
   outputPath =
     (case parse (stripComments data) of
        Inl msg \<Rightarrow> PathStr basePath
      | Inr parsed \<Rightarrow>
          if indexOf contentPath MOD_INFO_FILE > 0
          then PathStr (basename (dirname contentPath))
          else RejectedPromise (DataInvalid (''invalid or unsupported '' @ MOD_INFO_FILE)))"
  by (auto simp: attrStage_def Let_def split: sum.splits prod.splits if_splits)

lemma attrStage_root:
  assumes root: "indexOf contentPath MOD_INFO_FILE = 0"
    and parsed: "parse (stripComments data) = Inr (JObj props)"
    and ident: "map_of props ''id'' = Some ident" "ident \<noteq> Undefined"
    and name: "map_of props ''name'' = Some (JStr name)"
    and version: "map_of props ''version'' = Some (JStr version)"
  shows "attrStage parse contentPath basePath data =
     (Inr [Attribute ''customFileName'' (JStr (trim name)),
           Attribute ''version'' (JStr (trim version)),
           Attribute ''author'' (case map_of props ''author'' of None \<Rightarrow> Undefined | Some v \<Rightarrow> v)],
      RejectedPromise (DataInvalid ''invalid or unsupported mod_info.json''), [])"
  unfolding attrStage_def parsed
  by (simp add: getAttr_def trimValue_def root [unfolded MOD_INFO_FILE_def] ident name version
      MOD_INFO_FILE_def)

lemma copyStage_mod1:
  "copyStage [''mod1/mod_info.json'', ''mod1/data/foo.txt''] ''mod1'' (PathStr ''mod1'') attrs =
     Inr \<lparr>instructions = attrs @ [Copy ''mod1/mod_info.json'' ''mod1/mod_info.json'',
       Copy ''mod1/data/foo.txt'' ''mod1/data/foo.txt'']\<rparr>"
  by (simp add: copyStage_def copyFilter_def join_def normalize_def sep_def suffix_to_prefix Let_def)

lemma install_mod1:
  "installContent (sampleRead ''/staging/mod1/mod_info.json'' data) parse
     [''mod1/mod_info.json'', ''mod1/data/foo.txt''] ''/staging'' gameId =
     (case attrStage parse ''mod1/mod_info.json'' ''mod1'' data of
        (Inl e, outputPath, logs) \<Rightarrow> (Inl e, ReadFile ''/staging/mod1/mod_info.json'' # logs)
      | (Inr attrInstructions, outputPath, logs) \<Rightarrow>
          (copyStage [''mod1/mod_info.json'', ''mod1/data/foo.txt''] ''mod1'' outputPath
             attrInstructions,
           ReadFile ''/staging/mod1/mod_info.json'' # logs))"
  using install_after_read [where readFileAsync = "sampleRead ''/staging/mod1/mod_info.json'' data"
      and data = data and parse = parse and gameId = gameId, OF find_mod1 read_mod1]
  by (simp only: dirname_mod1 join_staging)

lemma attrStage_sample:
  "attrStage sampleParse ''mod1/mod_info.json'' ''mod1'' sampleManifest =
     (Inr [Attribute ''customFileName'' (JStr ''My Mod''), Attribute ''version'' (JStr ''1.0''),
           Attribute ''author'' (JStr ''Alice'')], PathStr ''mod1'', [])"
  unfolding attrStage_def parse_sample
  by (simp add: getAttr_def trimValue_def trim_def isWhiteSpace_def
        indexOf_def MOD_INFO_FILE_def basename_def dirname_def sep_def)

lemma install_sample:
  "installContent (sampleRead ''/staging/mod1/mod_info.json'' sampleManifest) sampleParse
     [''mod1/mod_info.json'', ''mod1/data/foo.txt''] ''/staging'' GAME_ID =
   (Inr \<lparr>instructions =
      [Attribute ''customFileName'' (JStr ''My Mod''), Attribute ''version'' (JStr ''1.0''),
       Attribute ''author'' (JStr ''Alice''),
       Copy ''mod1/mod_info.json'' ''mod1/mod_info.json'',
       Copy ''mod1/data/foo.txt'' ''mod1/data/foo.txt'']\<rparr>,
    [ReadFile ''/staging/mod1/mod_info.json''])"
  by (simp add: install_mod1 attrStage_sample copyStage_mod1)

lemma attrStage_root_sample:
  "attrStage sampleParse ''mod_info.json'' ''.'' sampleManifest =
     (Inr [Attribute ''customFileName'' (JStr ''My Mod''), Attribute ''version'' (JStr ''1.0''),
           Attribute ''author'' (JStr ''Alice'')],
      RejectedPromise (DataInvalid ''invalid or unsupported mod_info.json''), [])"
  unfolding attrStage_def parse_sample
  by (simp add: getAttr_def trimValue_def trim_def isWhiteSpace_def indexOf_def MOD_INFO_FILE_def)

subsection \<open>The game locator\<close>

text \<open>
  C9, as amended. \<^verbatim>\<open>findGame\<close> looks at the registry once, at the default value of
  the Starsector key, and does nothing else: two registries that agree there give the same
  outcome. It fails with the lookup's own error when the lookup throws, and with the
  error ``Starsector registry key not found!'' when the lookup returns nothing; otherwise
  it returns the stored value as it is, the empty string included.
\<close>

theorem findGame_outcomes:
  "(RegGetValue ''HKEY_CURRENT_USER'' STARSECTOR_KEY [] = Inl err \<longrightarrow>
      findGame RegGetValue = Inl err) \<and>
   (RegGetValue ''HKEY_CURRENT_USER'' STARSECTOR_KEY [] = Inr None \<longrightarrow>
      findGame RegGetValue = Inl (Error ''Starsector registry key not found!'')) \<and>
   (RegGetValue ''HKEY_CURRENT_USER'' STARSECTOR_KEY [] = Inr (Some entry) \<longrightarrow>
      findGame RegGetValue = Inr (regValue entry)) \<and>
   (RegGetValue ''HKEY_CURRENT_USER'' STARSECTOR_KEY [] =
      other ''HKEY_CURRENT_USER'' STARSECTOR_KEY [] \<longrightarrow>
      findGame RegGetValue = findGame other)"
  by (simp add: findGame_def)

theorem findGame_outcomes_witness:
  "findGame (\<lambda>hive key name. Inl (Error ''ENOENT'')) = Inl (Error ''ENOENT'') \<and>
   findGame (\<lambda>hive key name. Inr None) = Inl (Error ''Starsector registry key not found!'') \<and>
   sampleRegistry ''C:/Games/Starsector'' ''HKEY_CURRENT_USER'' STARSECTOR_KEY [] =
     Inr (Some \<lparr>regType = ''REG_SZ'', regValue = ''C:/Games/Starsector''\<rparr>) \<and>
   findGame (sampleRegistry ''C:/Games/Starsector'') = Inr ''C:/Games/Starsector'' \<and>
   findGame (sampleRegistry ''C:/Games/Starsector'') =
     findGame (\<lambda>hive key name. Inr (Some \<lparr>regType = ''REG_SZ'', regValue = ''C:/Games/Starsector''\<rparr>))"
proof -
  have r: "sampleRegistry ''C:/Games/Starsector'' ''HKEY_CURRENT_USER'' STARSECTOR_KEY [] =
     Inr (Some \<lparr>regType = ''REG_SZ'', regValue = ''C:/Games/Starsector''\<rparr>)"
    by (simp add: sampleRegistry_def)
  have a: "findGame (\<lambda>hive key name. Inl (Error ''ENOENT'')) = Inl (Error ''ENOENT'')"
    using findGame_outcomes [of "\<lambda>hive key name. Inl (Error ''ENOENT'')" "Error ''ENOENT''"]
    by blast
  have b: "findGame (\<lambda>hive key name. Inr None) = Inl (Error ''Starsector registry key not found!'')"
    using findGame_outcomes [of "\<lambda>hive key name. Inr None"]
    by blast
  have c: "findGame (sampleRegistry ''C:/Games/Starsector'') = Inr ''C:/Games/Starsector''"
    using r findGame_outcomes [of "sampleRegistry ''C:/Games/Starsector''" _
      "\<lparr>regType = ''REG_SZ'', regValue = ''C:/Games/Starsector''\<rparr>"]
    by simp
  have d: "findGame (sampleRegistry ''C:/Games/Starsector'') =
     findGame (\<lambda>hive key name. Inr (Some \<lparr>regType = ''REG_SZ'', regValue = ''C:/Games/Starsector''\<rparr>))"
    using r findGame_outcomes [of "sampleRegistry ''C:/Games/Starsector''" _ _
      "\<lambda>hive key name. Inr (Some \<lparr>regType = ''REG_SZ'', regValue = ''C:/Games/Starsector''\<rparr>)"]
    by simp
  from a b r c d show ?thesis by blast
qed

theorem findGame_counterexample:
  "sampleRegistry [] ''HKEY_CURRENT_USER'' STARSECTOR_KEY [] =
     Inr (Some \<lparr>regType = ''REG_SZ'', regValue = []\<rparr>) \<and>
   findGame (sampleRegistry []) = Inr []"
  by (simp add: findGame_def sampleRegistry_def)

subsection \<open>The probe\<close>

text \<open>
  C3, as amended. \<^verbatim>\<open>testSupportedContent\<close> answers \<^verbatim>\<open>{supported: false}\<close>, whatever
  the file list is, when the game is not Starsector. For Starsector, when no entry of the
  file list has the manifest's name as its last segment, it answers \<open>supported = false\<close>
  with \<open>requiredFiles\<close> the one-element list \<^verbatim>\<open>[undefined]\<close>; when exactly one entry has
  it, it answers \<open>supported = true\<close> with \<open>requiredFiles\<close> the list of that one path.
\<close>

theorem probe_answers:
  "(gameId \<noteq> GAME_ID \<longrightarrow>
      testSupportedContent files gameId = \<lparr>supported = False, requiredFiles = None\<rparr>) \<and>
   (filter (\<lambda>file. basename file = MOD_INFO_FILE) files = [] \<longrightarrow>
      testSupportedContent files GAME_ID = \<lparr>supported = False, requiredFiles = Some [None]\<rparr>) \<and>
   (filter (\<lambda>file. basename file = MOD_INFO_FILE) files = [thatPath] \<longrightarrow>
      testSupportedContent files GAME_ID =
        \<lparr>supported = True, requiredFiles = Some [Some thatPath]\<rparr>)"
  by (simp add: testSupportedContent_def find_filter_conv)

theorem probe_answers_witness:
  "''skyrim'' \<noteq> GAME_ID \<and>
   testSupportedContent [''mod1/mod_info.json''] ''skyrim''
     = \<lparr>supported = False, requiredFiles = None\<rparr> \<and>
   filter (\<lambda>file. basename file = MOD_INFO_FILE) [''readme.txt''] = [] \<and>
   testSupportedContent [''readme.txt''] GAME_ID
     = \<lparr>supported = False, requiredFiles = Some [None]\<rparr> \<and>
   filter (\<lambda>file. basename file = MOD_INFO_FILE)
     [''mod1/'', ''mod1/mod_info.json'', ''mod1/data/foo.txt''] = [''mod1/mod_info.json''] \<and>
   testSupportedContent [''mod1/'', ''mod1/mod_info.json'', ''mod1/data/foo.txt''] GAME_ID
     = \<lparr>supported = True, requiredFiles = Some [Some ''mod1/mod_info.json'']\<rparr>"
proof -
  have a: "''skyrim'' \<noteq> GAME_ID"
    by (simp add: GAME_ID_def)
  have b: "filter (\<lambda>file. basename file = MOD_INFO_FILE) [''readme.txt''] = []"
    by (simp add: basename_def sep_def MOD_INFO_FILE_def)
  have c: "filter (\<lambda>file. basename file = MOD_INFO_FILE)
             [''mod1/'', ''mod1/mod_info.json'', ''mod1/data/foo.txt''] = [''mod1/mod_info.json'']"
    by (simp add: basename_def sep_def MOD_INFO_FILE_def)
  from a b c
    probe_answers [of "''skyrim''" "[''mod1/mod_info.json'']" "''mod1/mod_info.json''"]
    probe_answers [of GAME_ID "[''readme.txt'']" "''mod1/mod_info.json''"]
    probe_answers [of GAME_ID "[''mod1/'', ''mod1/mod_info.json'', ''mod1/data/foo.txt'']"
      "''mod1/mod_info.json''"]
  show ?thesis by blast
qed

theorem probe_counterexample:
  "filter (\<lambda>file. basename file = MOD_INFO_FILE) [''readme.txt''] = [] \<and>
   testSupportedContent [''readme.txt''] GAME_ID
     = \<lparr>supported = False, requiredFiles = Some [None]\<rparr> \<and>
   requiredFiles (testSupportedContent [''readme.txt''] GAME_ID) \<noteq> None"
  by (simp add: testSupportedContent_def basename_def sep_def MOD_INFO_FILE_def)

subsection \<open>The installer\<close>

text \<open>
  C10. When no entry of the file list is named like the manifest, the install neither
  returns a result nor fails with \<^verbatim>\<open>DataInvalid\<close>: it fails with a \<^verbatim>\<open>TypeError\<close>,
  whatever the file system and the parser are, and no file is read and nothing is logged.
\<close>

theorem install_without_manifest:
  "\<forall>file \<in> set files. basename file \<noteq> MOD_INFO_FILE \<Longrightarrow>
   installContent readFileAsync parse files destinationPath gameId = (Inl TypeError, [])"
proof -
  assume none: "\<forall>file \<in> set files. basename file \<noteq> MOD_INFO_FILE"
  then have "find (\<lambda>file. basename file = MOD_INFO_FILE) files = None"
    by (simp add: find_None_iff)
  then show ?thesis
    by (simp add: installContent_def)
qed

theorem install_without_manifest_witness:
  "basename ''readme.txt'' \<noteq> MOD_INFO_FILE \<and> basename ''data/ships.csv'' \<noteq> MOD_INFO_FILE \<and>
   installContent (\<lambda>p. Inr ''{}'') (\<lambda>t. Inr (JObj [])) [''readme.txt'', ''data/ships.csv'']
     ''/staging'' GAME_ID = (Inl TypeError, [])"
proof -
  have h: "\<forall>file \<in> set [''readme.txt'', ''data/ships.csv'']. basename file \<noteq> MOD_INFO_FILE"
    by (simp add: basename_def sep_def MOD_INFO_FILE_def)
  show ?thesis
    using h install_without_manifest [OF h] by simp
qed

text \<open>
  C1, as amended. When the manifest is read but does not parse, the install logs a
  warning and succeeds with no attribute instruction; its instructions are the copy
  instructions for the files under \<^verbatim>\<open>basePath\<close>, each copied to \<^verbatim>\<open>basePath\<close> joined
  with its path relative to \<^verbatim>\<open>basePath\<close>.
\<close>

theorem parse_failure_keeps_copies:
  assumes "find (\<lambda>file. basename file = MOD_INFO_FILE) files = Some contentPath"
    and "readFileAsync (join [destinationPath, contentPath]) = Inr data"
    and "parse (stripComments data) = Inl msg"
  shows "installContent readFileAsync parse files destinationPath gameId =
     (Inr \<lparr>instructions =
         map (\<lambda>file. Copy file
                (join [dirname contentPath, drop (length (dirname contentPath) + 1) file]))
           (filter (\<lambda>file. prefix (dirname contentPath @ [sep]) file \<and> \<not> suffix [sep] file)
              files)\<rparr>,
      [ReadFile (join [destinationPath, contentPath]),
       Log ''warn'' (MOD_INFO_FILE @ '' invalid: '' @ msg) []])"
proof -
  note step = install_after_read [where readFileAsync = readFileAsync and data = data, OF assms(1,2)]
  show ?thesis
    by (simp add: step attrStage_parse_failure [where parse = parse, OF assms(3)]
        copyStage_def copyFilter_fun)
qed

theorem parse_failure_keeps_copies_witness:
  "find (\<lambda>file. basename file = MOD_INFO_FILE) [''mod1/mod_info.json'', ''mod1/data/foo.txt'']
     = Some ''mod1/mod_info.json'' \<and>
   sampleRead ''/staging/mod1/mod_info.json'' ''{'' (join [''/staging'', ''mod1/mod_info.json''])
     = Inr ''{'' \<and>
   sampleParse (stripComments ''{'') = Inl ''syntax error'' \<and>
   installContent (sampleRead ''/staging/mod1/mod_info.json'' ''{'') sampleParse
     [''mod1/mod_info.json'', ''mod1/data/foo.txt''] ''/staging'' GAME_ID =
     (Inr \<lparr>instructions =
         map (\<lambda>file. Copy file
                (join [dirname ''mod1/mod_info.json'',
                       drop (length (dirname ''mod1/mod_info.json'') + 1) file]))
           (filter (\<lambda>file. prefix (dirname ''mod1/mod_info.json'' @ [sep]) file \<and>
                            \<not> suffix [sep] file)
              [''mod1/mod_info.json'', ''mod1/data/foo.txt''])\<rparr>,
      [ReadFile (join [''/staging'', ''mod1/mod_info.json'']),
       Log ''warn'' (MOD_INFO_FILE @ '' invalid: '' @ ''syntax error'') []])"
  using find_mod1 read_mod1 parse_brace
    parse_failure_keeps_copies
      [where readFileAsync = "sampleRead ''/staging/mod1/mod_info.json'' ''{''"
        and parse = sampleParse and data = "''{''" and gameId = GAME_ID,
        OF find_mod1 read_mod1 parse_brace]
  by blast

theorem parse_failure_counterexample:
  "find (\<lambda>file. basename file = MOD_INFO_FILE) [''mod1/mod_info.json'', ''mod1/data/foo.txt'']
     = Some ''mod1/mod_info.json'' \<and>
   sampleRead ''/staging/mod1/mod_info.json'' ''{'' (join [''/staging'', ''mod1/mod_info.json''])
     = Inr ''{'' \<and>
   sampleParse (stripComments ''{'') = Inl ''syntax error'' \<and>
   installContent (sampleRead ''/staging/mod1/mod_info.json'' ''{'') sampleParse
     [''mod1/mod_info.json'', ''mod1/data/foo.txt''] ''/staging'' GAME_ID =
   (Inr \<lparr>instructions = [Copy ''mod1/mod_info.json'' ''mod1/mod_info.json'',
                          Copy ''mod1/data/foo.txt'' ''mod1/data/foo.txt'']\<rparr>,
    [ReadFile ''/staging/mod1/mod_info.json'',
     Log ''warn'' ''mod_info.json invalid: syntax error'' []])"
proof -
  have "attrStage sampleParse ''mod1/mod_info.json'' ''mod1'' ''{'' =
      (Inr [], PathStr ''mod1'', [Log ''warn'' ''mod_info.json invalid: syntax error'' []])"
    using attrStage_parse_failure [where parse = sampleParse, OF parse_brace]
    by (simp add: MOD_INFO_FILE_def)
  then have "installContent (sampleRead ''/staging/mod1/mod_info.json'' ''{'') sampleParse
     [''mod1/mod_info.json'', ''mod1/data/foo.txt''] ''/staging'' GAME_ID =
   (Inr \<lparr>instructions = [Copy ''mod1/mod_info.json'' ''mod1/mod_info.json'',
                          Copy ''mod1/data/foo.txt'' ''mod1/data/foo.txt'']\<rparr>,
    [ReadFile ''/staging/mod1/mod_info.json'',
     Log ''warn'' ''mod_info.json invalid: syntax error'' []])"
    by (simp add: install_mod1 copyStage_mod1)
  with find_mod1 read_mod1 parse_brace show ?thesis
    by blast
qed

text \<open>
  A manifest that parses to an object without the key \<^verbatim>\<open>id\<close> is rejected with
  \<^verbatim>\<open>DataInvalid\<close>, whatever its other keys are: \<^verbatim>\<open>getAttr\<close> returns
  \<^verbatim>\<open>undefined\<close> for the missing key.
\<close>

lemma object_without_id_rejected:
  assumes "find (\<lambda>file. basename file = MOD_INFO_FILE) files = Some contentPath"
    and "readFileAsync (join [destinationPath, contentPath]) = Inr data"
    and "parse (stripComments data) = Inr (JObj props)"
    and "map_of props ''id'' = None"
  shows "installContent readFileAsync parse files destinationPath gameId =
     (Inl (DataInvalid ''invalid or unsupported mod_info.json''),
      [ReadFile (join [destinationPath, contentPath])])"
proof -
  note step = install_after_read [where readFileAsync = readFileAsync and data = data, OF assms(1,2)]
  show ?thesis
    by (simp add: step attrStage_no_id [where parse = parse, OF assms(3,4)] MOD_INFO_FILE_def)
qed

text \<open>
  C5, at an input where the code departs from it. The text of the manifest is
  \<^verbatim>\<open>null\<close>: it parses, to \<^verbatim>\<open>null\<close>, and has no \<^verbatim>\<open>id\<close> key. The claim
  promises that the install fails with \<^verbatim>\<open>DataInvalid\<close> and returns no
  instructions. In the code reading \<^verbatim>\<open>parsed['id']\<close> throws, the handler of
  \<^verbatim>\<open>getAttr\<close> logs the missing attribute and returns the empty string, and the
  test \<^verbatim>\<open>contentModId === undefined\<close> under the comment ``If mod\_info.json has no
  id, this is an invalid mod'' does not fire: the install succeeds with three empty
  attributes and both copy instructions.
\<close>

theorem null_manifest_is_installed:
  "sampleParse (stripComments ''null'') = Inr Null \<and>
   getAttr Null ''id'' =
     (JStr [], [Log ''info'' ''attribute missing in mod_info.json'' [(''key'', ''id'')]]) \<and>
   installContent (sampleRead ''/staging/mod1/mod_info.json'' ''null'') sampleParse
     [''mod1/mod_info.json'', ''mod1/data/foo.txt''] ''/staging'' GAME_ID =
   (Inr \<lparr>instructions =
      [Attribute ''customFileName'' (JStr []), Attribute ''version'' (JStr []),
       Attribute ''author'' (JStr []),
       Copy ''mod1/mod_info.json'' ''mod1/mod_info.json'',
       Copy ''mod1/data/foo.txt'' ''mod1/data/foo.txt'']\<rparr>,
    [ReadFile ''/staging/mod1/mod_info.json'',
     Log ''info'' ''attribute missing in mod_info.json'' [(''key'', ''id'')],
     Log ''info'' ''attribute missing in mod_info.json'' [(''key'', ''name'')],
     Log ''info'' ''attribute missing in mod_info.json'' [(''key'', ''version'')],
     Log ''info'' ''attribute missing in mod_info.json'' [(''key'', ''author'')]])"
proof -
  have "attrStage sampleParse ''mod1/mod_info.json'' ''mod1'' ''null'' =
     (Inr [Attribute ''customFileName'' (JStr []), Attribute ''version'' (JStr []),
           Attribute ''author'' (JStr [])],
      PathStr ''mod1'',
      [Log ''info'' ''attribute missing in mod_info.json'' [(''key'', ''id'')],
       Log ''info'' ''attribute missing in mod_info.json'' [(''key'', ''name'')],
       Log ''info'' ''attribute missing in mod_info.json'' [(''key'', ''version'')],
       Log ''info'' ''attribute missing in mod_info.json'' [(''key'', ''author'')]])"
    unfolding attrStage_def parse_null
    by (simp add: getAttr_def trimValue_def trim_def indexOf_def MOD_INFO_FILE_def basename_def
        dirname_def sep_def)
  then show ?thesis
    using parse_null by (simp add: install_mod1 copyStage_mod1 getAttr_def MOD_INFO_FILE_def)
qed

text \<open>
  C2, at an input where the code departs from it. The manifest has an id, a version and
  an author but no name; the claim promises the attribute \<^verbatim>\<open>customFileName\<close> with the
  empty string and a successful install, the code fails with a \<^verbatim>\<open>TypeError\<close>:
  \<^verbatim>\<open>getAttr\<close> returns \<^verbatim>\<open>undefined\<close> for the missing key (its handler only runs
  when the manifest is \<^verbatim>\<open>null\<close>), and \<^verbatim>\<open>undefined.trim()\<close> throws.
\<close>

theorem missing_name_is_fatal:
  "sampleParse (stripComments namelessManifest) =
     Inr (JObj [(''id'', JStr ''mod1''), (''version'', JStr ''1.0''), (''author'', JStr ''Alice'')]) \<and>
   getAttr (JObj [(''id'', JStr ''mod1''), (''version'', JStr ''1.0''), (''author'', JStr ''Alice'')])
     ''name'' = (Undefined, []) \<and>
   installContent (sampleRead ''/staging/mod1/mod_info.json'' namelessManifest) sampleParse
     [''mod1/mod_info.json'', ''mod1/data/foo.txt''] ''/staging'' GAME_ID =
   (Inl TypeError, [ReadFile ''/staging/mod1/mod_info.json''])"
proof -
  have "attrStage sampleParse ''mod1/mod_info.json'' ''mod1'' namelessManifest =
     (Inl TypeError, PathStr ''mod1'', [])"
    unfolding attrStage_def parse_nameless
    by (simp add: getAttr_def trimValue_def indexOf_def MOD_INFO_FILE_def basename_def
        dirname_def sep_def)
  then show ?thesis
    using parse_nameless by (simp add: install_mod1 getAttr_def)
qed

text \<open>
  C4, as amended. For the manifest of the round-trip example and the file list
  \<^verbatim>\<open>[mod1/mod_info.json, mod1/data/foo.txt]\<close> the install returns five instructions:
  the three attributes, then a copy of the manifest itself, then the copy of
  \<^verbatim>\<open>mod1/data/foo.txt\<close>; and it has read the manifest once and logged nothing.
\<close>

theorem roundtrip_install:
  assumes rd: "readFileAsync (join [destinationPath, ''mod1/mod_info.json'']) = Inr data"
    and parsed: "parse (stripComments data) =
       Inr (JObj [(''id'', JStr ''mod1''), (''name'', JStr ''My Mod''),
                  (''version'', JStr ''1.0''), (''author'', JStr ''Alice'')])"
  shows "installContent readFileAsync parse [''mod1/mod_info.json'', ''mod1/data/foo.txt'']
           destinationPath gameId =
   (Inr \<lparr>instructions =
      [Attribute ''customFileName'' (JStr ''My Mod''), Attribute ''version'' (JStr ''1.0''),
       Attribute ''author'' (JStr ''Alice''),
       Copy ''mod1/mod_info.json'' ''mod1/mod_info.json'',
       Copy ''mod1/data/foo.txt'' ''mod1/data/foo.txt'']\<rparr>,
    [ReadFile (join [destinationPath, ''mod1/mod_info.json''])])"
proof -
  note step = install_after_read [where readFileAsync = readFileAsync and data = data
      and parse = parse and gameId = gameId, OF find_mod1 rd]
  have attrs: "attrStage parse ''mod1/mod_info.json'' ''mod1'' data =
     (Inr [Attribute ''customFileName'' (JStr ''My Mod''), Attribute ''version'' (JStr ''1.0''),
           Attribute ''author'' (JStr ''Alice'')], PathStr ''mod1'', [])"
    unfolding attrStage_def parsed
    by (simp add: getAttr_def trimValue_def trim_def isWhiteSpace_def
        indexOf_def MOD_INFO_FILE_def basename_def dirname_def sep_def)
  show ?thesis
    by (simp add: step dirname_mod1 attrs copyStage_mod1)
qed

theorem roundtrip_install_witness:
  "sampleRead ''/staging/mod1/mod_info.json'' sampleManifest
     (join [''/staging'', ''mod1/mod_info.json'']) = Inr sampleManifest \<and>
   sampleParse (stripComments sampleManifest) =
     Inr (JObj [(''id'', JStr ''mod1''), (''name'', JStr ''My Mod''),
                (''version'', JStr ''1.0''), (''author'', JStr ''Alice'')]) \<and>
   installContent (sampleRead ''/staging/mod1/mod_info.json'' sampleManifest) sampleParse
     [''mod1/mod_info.json'', ''mod1/data/foo.txt''] ''/staging'' GAME_ID =
   (Inr \<lparr>instructions =
      [Attribute ''customFileName'' (JStr ''My Mod''), Attribute ''version'' (JStr ''1.0''),
       Attribute ''author'' (JStr ''Alice''),
       Copy ''mod1/mod_info.json'' ''mod1/mod_info.json'',
       Copy ''mod1/data/foo.txt'' ''mod1/data/foo.txt'']\<rparr>,
    [ReadFile (join [''/staging'', ''mod1/mod_info.json''])])"
  using read_mod1 [of sampleManifest] parse_sample
    roundtrip_install
      [where readFileAsync = "sampleRead ''/staging/mod1/mod_info.json'' sampleManifest"
        and parse = sampleParse and data = sampleManifest and gameId = GAME_ID,
        OF read_mod1 [of sampleManifest] parse_sample]
  by blast

theorem roundtrip_counterexample:
  "sampleRead ''/staging/mod1/mod_info.json'' sampleManifest
     (join [''/staging'', ''mod1/mod_info.json'']) = Inr sampleManifest \<and>
   sampleParse (stripComments sampleManifest) =
     Inr (JObj [(''id'', JStr ''mod1''), (''name'', JStr ''My Mod''),
                (''version'', JStr ''1.0''), (''author'', JStr ''Alice'')]) \<and>
   fst (installContent (sampleRead ''/staging/mod1/mod_info.json'' sampleManifest) sampleParse
     [''mod1/mod_info.json'', ''mod1/data/foo.txt''] ''/staging'' GAME_ID) \<noteq>
   Inr \<lparr>instructions =
      [Attribute ''customFileName'' (JStr ''My Mod''), Attribute ''version'' (JStr ''1.0''),
       Attribute ''author'' (JStr ''Alice''),
       Copy ''mod1/data/foo.txt'' ''mod1/data/foo.txt'']\<rparr>"
  using read_mod1 [of sampleManifest] parse_sample
  by (simp add: install_sample)

text \<open>
  C6, as amended. When the manifest's name sits at position 0 of its path and the
  manifest parses to an object with an id and with strings for name and version, the
  \<^verbatim>\<open>DataInvalid\<close> rejection is neither raised nor returned: it is assigned to
  \<^verbatim>\<open>outputPath\<close>, which so loses its former value. The install then completes with
  the three attribute instructions when no entry of the file list passes the copy filter;
  when one does, \<^verbatim>\<open>path.join\<close> is handed the rejected promise and the install fails
  with a \<^verbatim>\<open>TypeError\<close>. It never fails with \<^verbatim>\<open>DataInvalid\<close>.
\<close>

theorem root_manifest_not_rejected:
  assumes found: "find (\<lambda>file. basename file = MOD_INFO_FILE) files = Some contentPath"
    and root: "indexOf contentPath MOD_INFO_FILE = 0"
    and rd: "readFileAsync (join [destinationPath, contentPath]) = Inr data"
    and parsed: "parse (stripComments data) = Inr (JObj props)"
    and ident: "map_of props ''id'' = Some ident" "ident \<noteq> Undefined"
    and name: "map_of props ''name'' = Some (JStr name)"
    and version: "map_of props ''version'' = Some (JStr version)"
  shows "fst (snd (attrStage parse contentPath (dirname contentPath) data)) =
           RejectedPromise (DataInvalid ''invalid or unsupported mod_info.json'') \<and>
         installContent readFileAsync parse files destinationPath gameId =
           (if filter (\<lambda>file. prefix (dirname contentPath @ [sep]) file \<and> \<not> suffix [sep] file)
                 files = []
            then Inr \<lparr>instructions =
                   [Attribute ''customFileName'' (JStr (trim name)),
                    Attribute ''version'' (JStr (trim version)),
                    Attribute ''author''
                      (case map_of props ''author'' of None \<Rightarrow> Undefined | Some v \<Rightarrow> v)]\<rparr>
            else Inl TypeError,
            [ReadFile (join [destinationPath, contentPath])])"
proof -
  note step = install_after_read [where readFileAsync = readFileAsync and data = data
      and parse = parse and gameId = gameId, OF found rd]
  note st = attrStage_root [where parse = parse and basePath = "dirname contentPath",
      OF root parsed ident name version]
  show ?thesis
    by (simp add: step st copyStage_def copyFilter_fun)
qed

theorem root_manifest_not_rejected_witness:
  "find (\<lambda>file. basename file = MOD_INFO_FILE) [''mod_info.json'', ''data/foo.txt'']
     = Some ''mod_info.json'' \<and>
   indexOf ''mod_info.json'' MOD_INFO_FILE = 0 \<and>
   sampleRead ''/staging/mod_info.json'' sampleManifest (join [''/staging'', ''mod_info.json''])
     = Inr sampleManifest \<and>
   sampleParse (stripComments sampleManifest) =
     Inr (JObj [(''id'', JStr ''mod1''), (''name'', JStr ''My Mod''),
                (''version'', JStr ''1.0''), (''author'', JStr ''Alice'')]) \<and>
   fst (snd (attrStage sampleParse ''mod_info.json'' (dirname ''mod_info.json'') sampleManifest)) =
     RejectedPromise (DataInvalid ''invalid or unsupported mod_info.json'') \<and>
   installContent (sampleRead ''/staging/mod_info.json'' sampleManifest) sampleParse
     [''mod_info.json'', ''data/foo.txt''] ''/staging'' GAME_ID =
   (Inr \<lparr>instructions =
      [Attribute ''customFileName'' (JStr ''My Mod''), Attribute ''version'' (JStr ''1.0''),
       Attribute ''author'' (JStr ''Alice'')]\<rparr>,
    [ReadFile ''/staging/mod_info.json''])"
proof -
  have i: "map_of [(''id'', JStr ''mod1''), (''name'', JStr ''My Mod''),
                (''version'', JStr ''1.0''), (''author'', JStr ''Alice'')] ''id'' = Some (JStr ''mod1'')"
     "JStr ''mod1'' \<noteq> Undefined"
    by simp_all
  have n: "map_of [(''id'', JStr ''mod1''), (''name'', JStr ''My Mod''),
                (''version'', JStr ''1.0''), (''author'', JStr ''Alice'')] ''name''
             = Some (JStr ''My Mod'')"
    by simp
  have v: "map_of [(''id'', JStr ''mod1''), (''name'', JStr ''My Mod''),
                (''version'', JStr ''1.0''), (''author'', JStr ''Alice'')] ''version''
             = Some (JStr ''1.0'')"
    by simp
  have f: "filter (\<lambda>file. prefix (dirname ''mod_info.json'' @ [sep]) file \<and> \<not> suffix [sep] file)
      [''mod_info.json'', ''data/foo.txt''] = []"
    by (simp add: dirname_root sep_def)
  have t: "trim ''My Mod'' = ''My Mod''" "trim ''1.0'' = ''1.0''"
    by (simp_all add: trim_def isWhiteSpace_def)
  from root_manifest_not_rejected
      [where readFileAsync = "sampleRead ''/staging/mod_info.json'' sampleManifest"
        and parse = sampleParse and data = sampleManifest and gameId = GAME_ID
        and files = "[''mod_info.json'', ''data/foo.txt'']",
        OF find_root index_root read_root parse_sample i n v]
  have "fst (snd (attrStage sampleParse ''mod_info.json'' (dirname ''mod_info.json'') sampleManifest)) =
     RejectedPromise (DataInvalid ''invalid or unsupported mod_info.json'') \<and>
   installContent (sampleRead ''/staging/mod_info.json'' sampleManifest) sampleParse
     [''mod_info.json'', ''data/foo.txt''] ''/staging'' GAME_ID =
   (Inr \<lparr>instructions =
      [Attribute ''customFileName'' (JStr ''My Mod''), Attribute ''version'' (JStr ''1.0''),
       Attribute ''author'' (JStr ''Alice'')]\<rparr>,
    [ReadFile ''/staging/mod_info.json''])"
    unfolding f t join_root by simp
  with find_root index_root read_root parse_sample show ?thesis
    by blast
qed

theorem root_manifest_counterexample:
  "indexOf ''mod_info.json'' MOD_INFO_FILE = 0 \<and>
   dirname ''mod_info.json'' = ''.'' \<and>
   fst (snd (attrStage sampleParse ''mod_info.json'' (dirname ''mod_info.json'') sampleManifest))
     \<noteq> PathStr (dirname ''mod_info.json'') \<and>
   installContent (sampleRead ''/staging/mod_info.json'' sampleManifest) sampleParse
     [''mod_info.json'', ''./readme.txt''] ''/staging'' GAME_ID =
   (Inl TypeError, [ReadFile ''/staging/mod_info.json''])"
proof -
  note step = install_after_read
      [where readFileAsync = "sampleRead ''/staging/mod_info.json'' sampleManifest"
        and data = sampleManifest and parse = sampleParse and gameId = GAME_ID,
        OF find_root read_root]
  have "installContent (sampleRead ''/staging/mod_info.json'' sampleManifest) sampleParse
     [''mod_info.json'', ''./readme.txt''] ''/staging'' GAME_ID =
   (Inl TypeError, [ReadFile ''/staging/mod_info.json''])"
    by (simp add: step dirname_root attrStage_root_sample join_root copyStage_def copyFilter_def
        sep_def suffix_to_prefix)
  then show ?thesis
    by (simp add: index_root dirname_root attrStage_root_sample)
qed

text \<open>
  C7. In a successful install the instructions are attribute instructions followed by
  one copy instruction for each entry of the file list, in order, that starts with
  \<^verbatim>\<open>basePath\<close> and the separator and does not end with the separator; its source is the
  entry and its destination is \<^verbatim>\<open>outputPath\<close> joined with the entry's path relative to
  \<^verbatim>\<open>basePath\<close>. (\<^verbatim>\<open>outputPath\<close> is the last segment of \<^verbatim>\<open>basePath\<close>, and
  \<^verbatim>\<open>basePath\<close> itself when the manifest did not parse.) An entry that ends with the
  separator is never the source of a copy instruction.
\<close>

theorem copy_instructions:
  assumes found: "find (\<lambda>file. basename file = MOD_INFO_FILE) files = Some contentPath"
    and rd: "readFileAsync (join [destinationPath, contentPath]) = Inr data"
    and ok: "installContent readFileAsync parse files destinationPath gameId = (Inr result, effects)"
  shows "(\<exists>attrInstructions.
      (\<forall>a \<in> set attrInstructions. \<exists>k v. a = Attribute k v) \<and>
      instructions result = attrInstructions @
        map (\<lambda>file. Copy file
               (join [(case parse (stripComments data) of
                         Inl msg \<Rightarrow> dirname contentPath
                       | Inr parsed \<Rightarrow> basename (dirname contentPath)),
                      drop (length (dirname contentPath) + 1) file]))
          (filter (\<lambda>file. prefix (dirname contentPath @ [sep]) file \<and> \<not> suffix [sep] file) files)) \<and>
    (\<forall>source destination.
       Copy source destination \<in> set (instructions result) \<longrightarrow> \<not> suffix [sep] source)"
proof -
  note step = install_after_read [where readFileAsync = readFileAsync and data = data, OF found rd]
  obtain r out logs where st: "attrStage parse contentPath (dirname contentPath) data = (r, out, logs)"
    by (cases "attrStage parse contentPath (dirname contentPath) data") auto
  from ok st obtain attrs where r: "r = Inr attrs"
    and cs: "copyStage files (dirname contentPath) out attrs = Inr result"
    by (cases r) (auto simp: step)
  have attrs: "\<forall>a \<in> set attrs. \<exists>k v. a = Attribute k v"
    using attrStage_attributes st r by blast
  have outv: "out =
     (case parse (stripComments data) of
        Inl msg \<Rightarrow> PathStr (dirname contentPath)
      | Inr parsed \<Rightarrow>
          if indexOf contentPath MOD_INFO_FILE > 0
          then PathStr (basename (dirname contentPath))
          else RejectedPromise (DataInvalid (''invalid or unsupported '' @ MOD_INFO_FILE)))"
    using attrStage_outputPath st r by blast
  have "instructions result = attrs @
        map (\<lambda>file. Copy file
               (join [(case parse (stripComments data) of
                         Inl msg \<Rightarrow> dirname contentPath
                       | Inr parsed \<Rightarrow> basename (dirname contentPath)),
                      drop (length (dirname contentPath) + 1) file]))
          (filter (\<lambda>file. prefix (dirname contentPath @ [sep]) file \<and> \<not> suffix [sep] file) files)"
  proof (cases out)
    case (PathStr p)
    with outv have "p = (case parse (stripComments data) of
                         Inl msg \<Rightarrow> dirname contentPath
                       | Inr parsed \<Rightarrow> basename (dirname contentPath))"
      by (auto split: sum.splits if_splits)
    with cs PathStr show ?thesis
      by (auto simp: copyStage_def copyFilter_fun Let_def)
  next
    case (RejectedPromise e)
    with cs show ?thesis
      by (auto simp: copyStage_def copyFilter_fun Let_def split: if_splits)
  qed
  with attrs have first: "\<exists>attrInstructions.
      (\<forall>a \<in> set attrInstructions. \<exists>k v. a = Attribute k v) \<and>
      instructions result = attrInstructions @
        map (\<lambda>file. Copy file
               (join [(case parse (stripComments data) of
                         Inl msg \<Rightarrow> dirname contentPath
                       | Inr parsed \<Rightarrow> basename (dirname contentPath)),
                      drop (length (dirname contentPath) + 1) file]))
          (filter (\<lambda>file. prefix (dirname contentPath @ [sep]) file \<and> \<not> suffix [sep] file) files)"
    by blast
  then have "\<forall>source destination.
       Copy source destination \<in> set (instructions result) \<longrightarrow> \<not> suffix [sep] source"
    by auto
  with first show ?thesis by blast
qed

theorem copy_instructions_witness:
  "find (\<lambda>file. basename file = MOD_INFO_FILE)
     [''mod1/'', ''mod1/mod_info.json'', ''mod1/data/'', ''mod1/data/foo.txt'']
     = Some ''mod1/mod_info.json'' \<and>
   sampleRead ''/staging/mod1/mod_info.json'' sampleManifest
     (join [''/staging'', ''mod1/mod_info.json'']) = Inr sampleManifest \<and>
   installContent (sampleRead ''/staging/mod1/mod_info.json'' sampleManifest) sampleParse
     [''mod1/'', ''mod1/mod_info.json'', ''mod1/data/'', ''mod1/data/foo.txt''] ''/staging'' GAME_ID =
   (Inr \<lparr>instructions =
      [Attribute ''customFileName'' (JStr ''My Mod''), Attribute ''version'' (JStr ''1.0''),
       Attribute ''author'' (JStr ''Alice''),
       Copy ''mod1/mod_info.json'' ''mod1/mod_info.json'',
       Copy ''mod1/data/foo.txt'' ''mod1/data/foo.txt'']\<rparr>,
    [ReadFile ''/staging/mod1/mod_info.json'']) \<and>
   (\<exists>attrInstructions.
      (\<forall>a \<in> set attrInstructions. \<exists>k v. a = Attribute k v) \<and>
      [Attribute ''customFileName'' (JStr ''My Mod''), Attribute ''version'' (JStr ''1.0''),
       Attribute ''author'' (JStr ''Alice''),
       Copy ''mod1/mod_info.json'' ''mod1/mod_info.json'',
       Copy ''mod1/data/foo.txt'' ''mod1/data/foo.txt''] =
      attrInstructions @
        map (\<lambda>file. Copy file (join [''mod1'', drop (length ''mod1'' + 1) file]))
          (filter (\<lambda>file. prefix (''mod1'' @ [sep]) file \<and> \<not> suffix [sep] file)
             [''mod1/'', ''mod1/mod_info.json'', ''mod1/data/'', ''mod1/data/foo.txt'']))"
proof -
  have found: "find (\<lambda>file. basename file = MOD_INFO_FILE)
     [''mod1/'', ''mod1/mod_info.json'', ''mod1/data/'', ''mod1/data/foo.txt'']
     = Some ''mod1/mod_info.json''"
    by (simp add: basename_def sep_def MOD_INFO_FILE_def)
  note step = install_after_read
      [where readFileAsync = "sampleRead ''/staging/mod1/mod_info.json'' sampleManifest"
        and data = sampleManifest and parse = sampleParse and gameId = GAME_ID,
        OF found read_mod1]
  have ok: "installContent (sampleRead ''/staging/mod1/mod_info.json'' sampleManifest) sampleParse
     [''mod1/'', ''mod1/mod_info.json'', ''mod1/data/'', ''mod1/data/foo.txt''] ''/staging'' GAME_ID =
   (Inr \<lparr>instructions =
      [Attribute ''customFileName'' (JStr ''My Mod''), Attribute ''version'' (JStr ''1.0''),
       Attribute ''author'' (JStr ''Alice''),
       Copy ''mod1/mod_info.json'' ''mod1/mod_info.json'',
       Copy ''mod1/data/foo.txt'' ''mod1/data/foo.txt'']\<rparr>,
    [ReadFile ''/staging/mod1/mod_info.json''])"
    by (simp add: step dirname_mod1 attrStage_sample join_staging copyStage_def copyFilter_def
        join_def normalize_def sep_def suffix_to_prefix Let_def)
  have b: "basename ''mod1'' = ''mod1''"
    by (simp add: basename_def sep_def)
  from copy_instructions
      [where readFileAsync = "sampleRead ''/staging/mod1/mod_info.json'' sampleManifest"
        and data = sampleManifest and parse = sampleParse and gameId = GAME_ID,
        OF found read_mod1 ok, THEN conjunct1]
  have "\<exists>attrInstructions.
      (\<forall>a \<in> set attrInstructions. \<exists>k v. a = Attribute k v) \<and>
      [Attribute ''customFileName'' (JStr ''My Mod''), Attribute ''version'' (JStr ''1.0''),
       Attribute ''author'' (JStr ''Alice''),
       Copy ''mod1/mod_info.json'' ''mod1/mod_info.json'',
       Copy ''mod1/data/foo.txt'' ''mod1/data/foo.txt''] =
      attrInstructions @
        map (\<lambda>file. Copy file (join [''mod1'', drop (length ''mod1'' + 1) file]))
          (filter (\<lambda>file. prefix (''mod1'' @ [sep]) file \<and> \<not> suffix [sep] file)
             [''mod1/'', ''mod1/mod_info.json'', ''mod1/data/'', ''mod1/data/foo.txt''])"
    unfolding parse_sample dirname_mod1 by (simp only: sum.case b install_result.simps)
  with found read_mod1 ok show ?thesis
    by blast
qed

subsection \<open>Comment stripping\<close>


text \<open>
  From here on the matcher is unfolded by hand: the equation of the lazy star and the
  equation of the replacement rewrite their own right-hand sides.
\<close>

declare matches.simps(7) [simp del]

lemma firstMatch_simps [simp]:
  "firstMatch [] = None"
  "firstMatch (m # ms) = Some m"
  by (simp_all add: firstMatch_def)



lemma not_LT_chars [simp]:
  "\<not> isLineTerminator hash" "\<not> isLineTerminator backslash" "\<not> isLineTerminator dquote"
  "\<not> isLineTerminator squote" "\<not> isLineTerminator CHR ''[''" "\<not> isLineTerminator CHR '']''"
  by (simp_all add: isLineTerminator_def)


















declare replaceAll1.simps [simp del]
































text \<open>A text without backslashes, without the quote \<open>q\<close> and without line terminators is
  the content of a literal in quotes \<open>q\<close>.\<close>

lemma plain_literalBody:
  "\<forall>y \<in> set lit. y \<noteq> q \<and> \<not> isLineTerminator y \<and> y \<noteq> backslash \<Longrightarrow> literalBody q lit"
  by (induction q lit rule: literalBody.induct) auto








end
